theory Spec2Isabelle
  imports Complex_Main
begin

unbundle bit_operations_syntax

section \<open>TMCC switch / accessory frame decoding\<close>

text \<open>
  The decoder of \<^verbatim>\<open>tmcc_wled.py\<close> takes an iterable of Python integers and an
  optional frame-type override. Python integers are unbounded, so the packet is an
  \<^typ>\<open>int list\<close>; \<^verbatim>\<open>&\<close>, \<^verbatim>\<open>|\<close>, \<^verbatim>\<open>>>\<close> and \<^verbatim>\<open><<\<close> on Python integers are the
  two's-complement operations \<open>AND\<close>, \<open>OR\<close>, \<^const>\<open>drop_bit\<close> and \<^const>\<open>push_bit\<close>
  on \<^typ>\<open>int\<close>. The returned dictionary has four fixed keys and is a record here;
  the rejection \<^verbatim>\<open>None\<close> is \<^const>\<open>None\<close>.
\<close>

record tmcc_fields =
  address :: int
  cmd_field :: int
  data_field :: int
  cmd_type :: int

definition parse_tmcc_switch_or_accessory :: "int list \<Rightarrow> int option \<Rightarrow> tmcc_fields option" where
  "parse_tmcc_switch_or_accessory packet cmd_type_arg =
     (if length packet \<noteq> 3 \<or> packet ! 0 \<noteq> 0xFE then None
      else
        let ct = (case cmd_type_arg of
                    None \<Rightarrow> drop_bit 6 (packet ! 1) AND 0x03
                  | Some c \<Rightarrow> c)
        in if ct \<noteq> 0x02 \<and> ct \<noteq> 0x03 then None
           else Some \<lparr> address = push_bit 1 (packet ! 1 AND 0x3F) OR drop_bit 7 (packet ! 2 AND 0x80),
                       cmd_field = drop_bit 5 (packet ! 2 AND 0x60),
                       data_field = packet ! 2 AND 0x1F,
                       cmd_type = ct \<rparr>)"

text \<open>The frame-type code the decoder tests: the override when one is supplied, bits 7-6 of
  byte 1 otherwise.\<close>

definition frame_type_code :: "int list \<Rightarrow> int option \<Rightarrow> int" where
  "frame_type_code packet cmd_type_arg =
     (case cmd_type_arg of None \<Rightarrow> drop_bit 6 (packet ! 1) AND 0x03 | Some c \<Rightarrow> c)"

section \<open>Python values used by the bridge\<close>

text \<open>
  Exceptions are values. Every constructor below is a subclass of Python's
  \<^verbatim>\<open>Exception\<close>, so an \<^verbatim>\<open>except Exception\<close> handler catches each of them. A procedure
  returns \<open>Inl e\<close> when it raises \<open>e\<close> and \<open>Inr v\<close> when it returns \<open>v\<close>.
\<close>

datatype exn =
    ValueError | IndexError | KeyError | UnboundLocalError
  | OSError | TimeoutError | HTTPException | InvalidURL

text \<open>JSON payloads: the dictionaries, lists, integers and booleans the bridge posts. A Python
  dictionary literal keeps its insertion order, so an object is an association list.\<close>

datatype json = JBool bool | JInt int | JList "json list" | JObj "(string \<times> json) list"

datatype level = DEBUG | INFO | WARNING | ERROR

text \<open>
  The effects of the dispatching thread, in program order: a call of
  \<^verbatim>\<open>client.post_state(payload)\<close> (one device call), \<^verbatim>\<open>conn.close()\<close> on a connection
  object, a log record (level and format string), an assignment to the simulator's
  \<^verbatim>\<open>_running\<close> flag, and the start and the bounded join of the simulator's thread.
\<close>

datatype event =
    PostState json
  | ConnClose
  | Log level string
  | SetRunning bool
  | ThreadStart
  | ThreadJoin

subsection \<open>String operations\<close>

text \<open>
  A Python \<^verbatim>\<open>str\<close> is a sequence of Unicode code points, so it is a list of naturals;
  \<^verbatim>\<open>len\<close>, slicing and comparison work on code points. The literals of the source are ASCII
  and are written with \<open>str\<close>.
\<close>

type_synonym pystr = "nat list"

definition str :: "string \<Rightarrow> pystr" where
  "str s = map of_char s"

definition startswith :: "pystr \<Rightarrow> pystr \<Rightarrow> bool" where
  "startswith s p = (take (length p) s = p)"

text \<open>\<^verbatim>\<open>s.split(":", 1)[1]\<close>: the text after the first colon; \<^verbatim>\<open>IndexError\<close> without one.\<close>

definition split_colon_1 :: "pystr \<Rightarrow> exn + pystr" where
  "split_colon_1 s =
     (case dropWhile (\<lambda>c. c \<noteq> of_char CHR '':'') s of
        [] \<Rightarrow> Inl IndexError
      | _ # rest \<Rightarrow> Inr rest)"

text \<open>\<^verbatim>\<open>s.lstrip("#")\<close> removes every leading \<^verbatim>\<open>#\<close>.\<close>

definition lstrip_hash :: "pystr \<Rightarrow> pystr" where
  "lstrip_hash s = dropWhile (\<lambda>c. c = of_char CHR ''#'') s"

text \<open>
  The builtin \<^verbatim>\<open>int(s, base)\<close> on a string, for the bases 10 and 16 the bridge uses.
  The interpreter first rewrites a string that is not pure ASCII: a code point below 127 is
  kept, Unicode white space becomes a blank, a Unicode decimal digit becomes the ASCII digit
  of its value, and the first other code point becomes \<^verbatim>\<open>?\<close> and ends the string. The
  white space above ASCII is a fixed set; the table of decimal digits belongs to the
  interpreter's Unicode database, which grows with its version, and is an argument of
  the model.
\<close>

type_synonym unicode_decimal = "nat \<Rightarrow> nat option"

definition unicode_isspace :: "nat \<Rightarrow> bool" where
  "unicode_isspace ch =
     (ch \<in> set [0x85, 0xA0, 0x1680, 0x2028, 0x2029, 0x202F, 0x205F, 0x3000]
      \<or> (0x2000 \<le> ch \<and> ch \<le> 0x200A))"

fun transform_loop :: "unicode_decimal \<Rightarrow> pystr \<Rightarrow> pystr" where
  "transform_loop dec [] = []"
| "transform_loop dec (ch # rest) =
     (if ch < 127 then ch # transform_loop dec rest
      else if unicode_isspace ch then 32 # transform_loop dec rest
      else case dec ch of
             None \<Rightarrow> [63]
           | Some d \<Rightarrow> (48 + d) # transform_loop dec rest)"

definition transform_decimal_and_space_to_ascii :: "unicode_decimal \<Rightarrow> pystr \<Rightarrow> pystr" where
  "transform_decimal_and_space_to_ascii dec s =
     (if list_all (\<lambda>ch. ch < 128) s then s else transform_loop dec s)"

text \<open>
  The rewritten string is then parsed: blanks (space, tab, line feed, vertical tab, form
  feed, carriage return) are skipped on both sides, then an optional sign, for base 16 an
  optional \<^verbatim>\<open>0x\<close>/\<^verbatim>\<open>0X\<close> prefix (which may be followed by one underscore), then at
  least one digit of the base, with single underscores allowed between digits. Anything
  else raises \<^verbatim>\<open>ValueError\<close>. The interpreter's configurable limit on the number of
  decimal digits is not modelled.
\<close>

definition is_space :: "nat \<Rightarrow> bool" where
  "is_space c = (c \<in> set [0x20, 0x09, 0x0A, 0x0B, 0x0C, 0x0D])"

definition digit_value :: "nat \<Rightarrow> nat option" where
  "digit_value n =
     (if 48 \<le> n \<and> n \<le> 57 then Some (n - 48)
      else if 97 \<le> n \<and> n \<le> 122 then Some (n - 87)
      else if 65 \<le> n \<and> n \<le> 90 then Some (n - 55)
      else None)"

fun digits_acc :: "nat \<Rightarrow> nat \<Rightarrow> bool \<Rightarrow> pystr \<Rightarrow> nat option" where
  "digits_acc base acc after_us [] = (if after_us then None else Some acc)"
| "digits_acc base acc after_us (c # cs) =
     (if c = of_char CHR ''_'' then (if after_us then None else digits_acc base acc True cs)
      else case digit_value c of
             None \<Rightarrow> None
           | Some d \<Rightarrow> if d < base then digits_acc base (acc * base + d) False cs else None)"

definition parse_digits :: "nat \<Rightarrow> pystr \<Rightarrow> nat option" where
  "parse_digits base s =
     (case s of [] \<Rightarrow> None
      | c # _ \<Rightarrow> if c = of_char CHR ''_'' then None else digits_acc base 0 False s)"

definition py_int :: "unicode_decimal \<Rightarrow> nat \<Rightarrow> pystr \<Rightarrow> exn + int" where
  "py_int dec base s =
     (let s0 = transform_decimal_and_space_to_ascii dec s;
          s1 = dropWhile is_space s0;
          (sgn_neg, s2) = (case s1 of
                         c # r \<Rightarrow> if c = of_char CHR ''+'' then (False, r)
                                  else if c = of_char CHR ''-'' then (True, r) else (False, s1)
                       | [] \<Rightarrow> (False, s1));
          s3 = (if base = 16 \<and> (startswith s2 (str ''0x'') \<or> startswith s2 (str ''0X''))
                then (let r = drop 2 s2 in if startswith r (str ''_'') then drop 1 r else r)
                else s2);
          s4 = rev (dropWhile is_space (rev s3))
      in case parse_digits base s4 of
           None \<Rightarrow> Inl ValueError
         | Some n \<Rightarrow> Inr (if sgn_neg then - int n else int n))"

text \<open>An excerpt of the decimal digits above ASCII, for evaluating examples: the
  Arabic-Indic and the fullwidth digits.\<close>

definition decimal_excerpt :: unicode_decimal where
  "decimal_excerpt ch =
     (if 0x0660 \<le> ch \<and> ch \<le> 0x0669 then Some (ch - 0x0660)
      else if 0xFF10 \<le> ch \<and> ch \<le> 0xFF19 then Some (ch - 0xFF10)
      else None)"


section \<open>The WLED client\<close>

text \<open>
  What the network does during one \<^verbatim>\<open>post_state\<close> is not the program's choice, so it is an
  argument: the stage at which the exchange raises, or the status line of the response that
  was received and drained, and whether \<^verbatim>\<open>conn.close()\<close> raises.
\<close>

datatype exchange =
    ConnectionRaises exn
  | RequestRaises exn
  | GetResponseRaises exn
  | ReadRaises exn
  | Responds int string

record transport =
  exchange :: exchange
  close_raises :: bool

text \<open>
  The body of the \<^verbatim>\<open>try\<close>. The third component tells whether the local \<^verbatim>\<open>conn\<close> was
  bound, i.e. whether the \<^verbatim>\<open>HTTPConnection\<close> constructor returned.
\<close>

definition post_state_try :: "transport \<Rightarrow> json \<Rightarrow> (exn + bool) \<times> event list \<times> bool" where
  "post_state_try tr payload =
     (case exchange tr of
        ConnectionRaises e \<Rightarrow> (Inl e, [], False)
      | RequestRaises e \<Rightarrow> (Inl e, [], True)
      | GetResponseRaises e \<Rightarrow> (Inl e, [], True)
      | ReadRaises e \<Rightarrow> (Inl e, [], True)
      | Responds status reason \<Rightarrow>
          if status < 200 \<or> status \<ge> 300
          then (Inr False, [Log WARNING ''WLED HTTP %s %s: %s''], True)
          else (Inr True, [], True))"

text \<open>The \<^verbatim>\<open>finally\<close> block: \<^verbatim>\<open>conn.close()\<close> inside its own \<^verbatim>\<open>try\<close>. Reading the unbound
  local raises \<^verbatim>\<open>UnboundLocalError\<close> before any connection is touched.\<close>

definition post_state_close :: "transport \<Rightarrow> bool \<Rightarrow> (exn + unit) \<times> event list" where
  "post_state_close tr bound =
     (if \<not> bound then (Inl UnboundLocalError, [])
      else if close_raises tr then (Inl OSError, [ConnClose])
      else (Inr (), [ConnClose]))"

definition post_state :: "transport \<Rightarrow> json \<Rightarrow> (exn + bool) \<times> event list" where
  "post_state tr payload =
     (let (r, ev, bound) = post_state_try tr payload;
          (r1, ev1) = (case r of
                         Inl e \<Rightarrow> (Inr False, ev @ [Log ERROR ''WLED request failed: %s''])
                       | Inr b \<Rightarrow> (Inr b, ev));
          (rc, evc) = post_state_close tr bound;
          ev2 = (case rc of Inl e \<Rightarrow> evc | Inr u \<Rightarrow> evc)
      in (r1, PostState payload # ev1 @ ev2))"

text \<open>A caller that ignores the boolean still propagates an exception.\<close>

definition discard :: "exn + 'a \<Rightarrow> exn + unit" where
  "discard r = (case r of Inl e \<Rightarrow> Inl e | Inr v \<Rightarrow> Inr ())"

section \<open>The daylight simulator\<close>

type_synonym color = "int \<times> int \<times> int"

definition DEFAULT_KEYFRAMES :: "(int \<times> color) list" where
  "DEFAULT_KEYFRAMES =
     [(0, (40, 40, 100)), (5, (50, 50, 120)), (6, (255, 150, 80)), (8, (255, 220, 180)),
      (12, (255, 255, 240)), (16, (255, 240, 220)), (18, (255, 140, 60)), (20, (80, 60, 120)),
      (21, (60, 60, 130)), (24, (40, 40, 100))]"

text \<open>
  The instance state of \<^verbatim>\<open>DaylightCycle\<close>. The keyframe dictionary is an association list
  (a dictionary's keys are distinct); \<open>thread\<close> tells whether \<^verbatim>\<open>_thread\<close> holds a thread
  object. Floats are rationals: every finite double is one.
\<close>

record daylight_cycle =
  cycle_duration :: rat
  led_count :: int
  moon_start :: int
  moon_length :: int
  lightning_every_n :: int
  keyframes :: "(int \<times> color) list"
  update_interval :: rat
  running :: bool
  thread :: bool
  cycle_count :: int
  start_time :: rat

definition daylight_cycle_init ::
  "rat \<Rightarrow> int \<Rightarrow> int \<Rightarrow> int \<Rightarrow> int \<Rightarrow> (int \<times> color) list option \<Rightarrow> rat \<Rightarrow> daylight_cycle" where
  "daylight_cycle_init cycle_duration_sec leds moon_s moon_l lightning kfs interval =
     \<lparr> cycle_duration = cycle_duration_sec, led_count = leds, moon_start = moon_s,
       moon_length = moon_l, lightning_every_n = lightning,
       keyframes = (case kfs of None \<Rightarrow> DEFAULT_KEYFRAMES
                    | Some k \<Rightarrow> if k = [] then DEFAULT_KEYFRAMES else k),
       update_interval = interval, running = False, thread = False, cycle_count = 0,
       start_time = 0 \<rparr>"

subsection \<open>Colour interpolation\<close>









subsection \<open>Starting and stopping\<close>

definition baseline_state :: "daylight_cycle \<Rightarrow> json" where
  "baseline_state d =
     JObj [(''on'', JBool True), (''mainseg'', JInt 0),
           (''seg'', JList [JObj [(''id'', JInt 0), (''start'', JInt 0),
                                  (''stop'', JInt (led_count d)), (''on'', JBool True)]])]"

definition daylight_start ::
  "transport \<Rightarrow> daylight_cycle \<Rightarrow> (exn + unit) \<times> daylight_cycle \<times> event list" where
  "daylight_start tr d =
     (if running d then (Inr (), d, [])
      else
        let (r, ev) = post_state tr (baseline_state d) in
        case r of
          Inl e \<Rightarrow> (Inl e, d, ev)
        | Inr b \<Rightarrow> (Inr (), d\<lparr>running := True, thread := True\<rparr>,
                    ev @ [SetRunning True, ThreadStart,
                          Log INFO ''Daylight cycle started (%.0f sec per 24h)'']))"

definition daylight_stop :: "daylight_cycle \<Rightarrow> daylight_cycle \<times> event list" where
  "daylight_stop d =
     (d\<lparr>running := False\<rparr>,
      SetRunning False # (if thread d then [ThreadJoin] else []) @
        [Log INFO ''Daylight cycle stopped''])"

section \<open>The controller\<close>

record wled_client =
  host :: string
  port :: int
  timeout :: rat

record wled_controller =
  mapping :: "int \<times> int \<Rightarrow> pystr option"
  client :: wled_client
  pattern_presets :: "int list"
  pattern_index :: int
  daylight :: "daylight_cycle option"

text \<open>
  The constructor. With the daylight flag set it builds the simulator with the default
  keyframes and update interval and starts it before returning.
\<close>

definition wled_controller_init ::
  "transport \<Rightarrow> (int \<times> int \<Rightarrow> pystr option) \<Rightarrow> string \<Rightarrow> int \<Rightarrow> int list option \<Rightarrow> rat \<Rightarrow>
   bool \<Rightarrow> rat \<Rightarrow> int \<Rightarrow> int \<Rightarrow> int \<Rightarrow> int \<Rightarrow> (exn + wled_controller) \<times> event list" where
  "wled_controller_init tr mapping_arg host_arg port_arg presets timeout_arg
       daylight_flag cycle_duration_sec leds moon_s moon_l lightning =
     (let c = \<lparr> mapping = mapping_arg,
                client = \<lparr> host = host_arg, port = port_arg, timeout = timeout_arg \<rparr>,
                pattern_presets = (case presets of None \<Rightarrow> [] | Some ps \<Rightarrow> ps),
                pattern_index = 0,
                daylight = None \<rparr>
      in if daylight_flag then
           (let d = daylight_cycle_init cycle_duration_sec leds moon_s moon_l lightning None 1;
                (r, d', ev) = daylight_start tr d
            in case r of
                 Inl e \<Rightarrow> (Inl e, ev)
               | Inr u \<Rightarrow> (Inr (c\<lparr>daylight := Some d'\<rparr>), ev))
         else (Inr c, []))"

text \<open>\<^verbatim>\<open>if self.daylight: self.daylight.stop()\<close>\<close>

definition stop_if_configured :: "wled_controller \<Rightarrow> wled_controller \<times> event list" where
  "stop_if_configured c =
     (case daylight c of
        None \<Rightarrow> (c, [])
      | Some d \<Rightarrow> (let (d', ev) = daylight_stop d in (c\<lparr>daylight := Some d'\<rparr>, ev)))"

text \<open>An \<^verbatim>\<open>except ValueError\<close> handler that logs a warning; other exceptions pass.\<close>

definition except_ValueError :: "string \<Rightarrow> (exn + unit) \<times> event list \<Rightarrow> (exn + unit) \<times> event list" where
  "except_ValueError msg res =
     (case res of (r, ev) \<Rightarrow>
        if r = Inl ValueError then (Inr (), ev @ [Log WARNING msg]) else (r, ev))"

definition post_and_discard :: "transport \<Rightarrow> json \<Rightarrow> (exn + unit) \<times> event list" where
  "post_and_discard tr payload = (case post_state tr payload of (r, ev) \<Rightarrow> (discard r, ev))"

definition color_payload :: "int \<Rightarrow> int \<Rightarrow> int \<Rightarrow> json" where
  "color_payload r g b =
     JObj [(''seg'', JList [JObj [(''id'', JInt 0), (''col'', JList [JList [JInt r, JInt g, JInt b]])]])]"

definition full_white_payload :: json where
  "full_white_payload =
     JObj [(''on'', JBool True), (''bri'', JInt 255),
           (''seg'', JList [JObj [(''id'', JInt 0),
                                  (''col'', JList [JList [JInt 255, JInt 255, JInt 255]])]])]"

text \<open>The \<^verbatim>\<open>color:\<close> branch. The three conversions are not inside any \<^verbatim>\<open>try\<close>.\<close>

definition apply_color ::
  "unicode_decimal \<Rightarrow> transport \<Rightarrow> pystr \<Rightarrow> (exn + unit) \<times> event list" where
  "apply_color dec tr action =
     (case split_colon_1 action of
        Inl e \<Rightarrow> (Inl e, [])
      | Inr arg \<Rightarrow>
          let hex_color = lstrip_hash arg in
          if length hex_color = 6 then
            (case py_int dec 16 (take 2 hex_color) of
               Inl e \<Rightarrow> (Inl e, [])
             | Inr r \<Rightarrow>
                 (case py_int dec 16 (take 2 (drop 2 hex_color)) of
                    Inl e \<Rightarrow> (Inl e, [])
                  | Inr g \<Rightarrow>
                      (case py_int dec 16 (take 2 (drop 4 hex_color)) of
                         Inl e \<Rightarrow> (Inl e, [])
                       | Inr b \<Rightarrow> post_and_discard tr (color_payload r g b))))
          else (Inr (), [Log WARNING ''Invalid color format: %s'']))"

text \<open>The body of the \<^verbatim>\<open>try\<close> of the \<^verbatim>\<open>brightness:\<close> branch, and the branch.\<close>

definition brightness_try ::
  "unicode_decimal \<Rightarrow> transport \<Rightarrow> pystr \<Rightarrow> (exn + unit) \<times> event list" where
  "brightness_try dec tr action =
     (case split_colon_1 action of
        Inl e \<Rightarrow> (Inl e, [])
      | Inr arg \<Rightarrow>
          (case py_int dec 10 arg of
             Inl e \<Rightarrow> (Inl e, [])
           | Inr v \<Rightarrow>
               let value = max 0 (min 255 v) in
               post_and_discard tr (JObj [(''bri'', JInt value)])))"

definition apply_brightness ::
  "unicode_decimal \<Rightarrow> transport \<Rightarrow> pystr \<Rightarrow> (exn + unit) \<times> event list" where
  "apply_brightness dec tr action =
     except_ValueError ''Invalid brightness action: %s'' (brightness_try dec tr action)"

definition preset_try ::
  "unicode_decimal \<Rightarrow> transport \<Rightarrow> pystr \<Rightarrow> (exn + unit) \<times> event list" where
  "preset_try dec tr action =
     (case split_colon_1 action of
        Inl e \<Rightarrow> (Inl e, [])
      | Inr arg \<Rightarrow>
          (case py_int dec 10 arg of
             Inl e \<Rightarrow> (Inl e, [])
           | Inr preset_id \<Rightarrow> post_and_discard tr (JObj [(''ps'', JInt preset_id)])))"

definition apply_preset ::
  "unicode_decimal \<Rightarrow> transport \<Rightarrow> pystr \<Rightarrow> (exn + unit) \<times> event list" where
  "apply_preset dec tr action =
     except_ValueError ''Invalid preset action: %s'' (preset_try dec tr action)"

text \<open>\<^verbatim>\<open>xs[i]\<close> on a Python list: an index below zero is taken from the end of the list,
  and one outside both ranges raises.\<close>

definition list_get :: "int list \<Rightarrow> int \<Rightarrow> exn + int" where
  "list_get xs i =
     (if 0 \<le> i \<and> i < int (length xs) then Inr (xs ! nat i)
      else if i < 0 \<and> - int (length xs) \<le> i then Inr (xs ! nat (int (length xs) + i))
      else Inl IndexError)"

text \<open>The \<^verbatim>\<open>cycle\<close> branch. Python's \<^verbatim>\<open>%\<close> with a positive divisor is HOL's \<open>mod\<close> on
  \<^typ>\<open>int\<close>.\<close>

definition apply_cycle ::
  "transport \<Rightarrow> wled_controller \<Rightarrow> (exn + unit) \<times> wled_controller \<times> event list" where
  "apply_cycle tr c =
     (if pattern_presets c = [] then
        (Inr (), c, [Log WARNING ''No pattern_presets configured for cycle action''])
      else
        let c' = c\<lparr>pattern_index := (pattern_index c + 1) mod int (length (pattern_presets c))\<rparr> in
        case list_get (pattern_presets c') (pattern_index c') of
          Inl e \<Rightarrow> (Inl e, c', [])
        | Inr preset_id \<Rightarrow>
            (case post_state tr (JObj [(''ps'', JInt preset_id)]) of
               (Inl e, ev) \<Rightarrow> (Inl e, c', ev)
             | (Inr b, ev) \<Rightarrow> (Inr (), c', ev @ [Log INFO ''WLED cycled to preset %s''])))"

text \<open>\<^verbatim>\<open>apply_action\<close>: the \<^verbatim>\<open>if\<close>/\<^verbatim>\<open>elif\<close> chain in the source's order. It returns the
  exception raised, if any, the controller after the call, and the effects in order.\<close>

definition apply_action ::
  "unicode_decimal \<Rightarrow> transport \<Rightarrow> wled_controller \<Rightarrow> pystr \<Rightarrow>
   (exn + unit) \<times> wled_controller \<times> event list" where
  "apply_action dec tr c action =
     (if action = str ''on'' then
        (case post_and_discard tr (JObj [(''on'', JBool True)]) of (r, ev) \<Rightarrow> (r, c, ev))
      else if action = str ''off'' then
        (case stop_if_configured c of (c', ev1) \<Rightarrow>
           case post_and_discard tr (JObj [(''on'', JBool False)]) of (r, ev2) \<Rightarrow>
             (r, c', ev1 @ ev2))
      else if action = str ''full_white'' then
        (case stop_if_configured c of (c', ev1) \<Rightarrow>
           case post_and_discard tr full_white_payload of (r, ev2) \<Rightarrow> (r, c', ev1 @ ev2))
      else if action = str ''daylight_start'' then
        (case daylight c of
           Some d \<Rightarrow> (case daylight_start tr d of (r, d', ev) \<Rightarrow> (r, c\<lparr>daylight := Some d'\<rparr>, ev))
         | None \<Rightarrow> (Inr (), c, [Log WARNING ''Daylight cycle not configured'']))
      else if action = str ''daylight_stop'' then
        (case daylight c of
           Some d \<Rightarrow> (case daylight_stop d of (d', ev) \<Rightarrow> (Inr (), c\<lparr>daylight := Some d'\<rparr>, ev))
         | None \<Rightarrow> (Inr (), c, [Log WARNING ''Daylight cycle not configured'']))
      else if startswith action (str ''color:'') then
        (case apply_color dec tr action of (r, ev) \<Rightarrow> (r, c, ev))
      else if startswith action (str ''brightness:'') then
        (case apply_brightness dec tr action of (r, ev) \<Rightarrow> (r, c, ev))
      else if startswith action (str ''preset:'') then
        (case apply_preset dec tr action of (r, ev) \<Rightarrow> (r, c, ev))
      else if action = str ''cycle'' then apply_cycle tr c
      else (Inr (), c, [Log WARNING ''Unhandled WLED action: %s'']))"

text \<open>\<^verbatim>\<open>handle_packet\<close>: an action that is missing or the empty string is ignored.\<close>

definition handle_packet ::
  "unicode_decimal \<Rightarrow> transport \<Rightarrow> wled_controller \<Rightarrow> int list \<Rightarrow> int option \<Rightarrow>
   (exn + bool) \<times> wled_controller \<times> event list" where
  "handle_packet dec tr c packet cmd_type_arg =
     (case parse_tmcc_switch_or_accessory packet cmd_type_arg of
        None \<Rightarrow> (Inr False, c, [])
      | Some parsed \<Rightarrow>
          (case mapping c (address parsed, data_field parsed) of
             None \<Rightarrow> (Inr False, c, [Log DEBUG ''WLED ignored addr=%s data=%s cmd_type=%s''])
           | Some action \<Rightarrow>
               if action = [] then
                 (Inr False, c, [Log DEBUG ''WLED ignored addr=%s data=%s cmd_type=%s''])
               else
                 (case apply_action dec tr c action of
                    (Inl e, c', ev) \<Rightarrow>
                      (Inl e, c', Log INFO ''WLED action '%s' for addr %s data %s'' # ev)
                  | (Inr u, c', ev) \<Rightarrow>
                      (Inr True, c', Log INFO ''WLED action '%s' for addr %s data %s'' # ev))))"

text \<open>The device calls among the effects, in order.\<close>

definition device_calls :: "event list \<Rightarrow> json list" where
  "device_calls ev = concat (map (\<lambda>e. case e of PostState p \<Rightarrow> [p] | _ \<Rightarrow> []) ev)"

text \<open>The controller of the module's manual test harness, and a device that answers 200.\<close>

definition harness_mapping :: "int \<times> int \<Rightarrow> pystr option" where
  "harness_mapping =
     [(50, 0x01) \<mapsto> str ''on'', (50, 0x02) \<mapsto> str ''off'', (50, 0x03) \<mapsto> str ''cycle'']"

definition harness_controller :: wled_controller where
  "harness_controller =
     \<lparr> mapping = harness_mapping,
       client = \<lparr> host = ''192.168.0.10'', port = 80, timeout = 2 \<rparr>,
       pattern_presets = [1, 2, 3], pattern_index = 0, daylight = None \<rparr>"

definition answers_ok :: transport where
  "answers_ok = \<lparr> exchange = Responds 200 ''OK'', close_raises = False \<rparr>"

section \<open>Properties of the decoder\<close>

lemma and_mask_bounds:
  "0 \<le> (x::int) AND 0x3F" "(x::int) AND 0x3F \<le> 0x3F"
  "0 \<le> (x::int) AND 0x80" "(x::int) AND 0x80 \<le> 0x80"
  "0 \<le> (x::int) AND 0x60" "(x::int) AND 0x60 \<le> 0x60"
  "0 \<le> (x::int) AND 0x1F" "(x::int) AND 0x1F \<le> 0x1F"
  by simp_all

lemma shifted_bounds:
  fixes z :: int
  shows "0 \<le> z \<Longrightarrow> z \<le> 0x3F \<Longrightarrow> 0 \<le> push_bit 1 z \<and> push_bit 1 z < 2 ^ 7"
    and "0 \<le> z \<Longrightarrow> z \<le> 0x80 \<Longrightarrow> 0 \<le> drop_bit 7 z \<and> drop_bit 7 z < 2 ^ 7"
    and "0 \<le> z \<Longrightarrow> z \<le> 0x60 \<Longrightarrow> 0 \<le> drop_bit 5 z \<and> drop_bit 5 z \<le> 3"
  by (simp_all add: push_bit_eq_mult drop_bit_eq_div) presburger+

lemma address_bounds:
  fixes x y :: int
  shows "0 \<le> push_bit 1 (x AND 0x3F) OR drop_bit 7 (y AND 0x80)"
    and "push_bit 1 (x AND 0x3F) OR drop_bit 7 (y AND 0x80) \<le> 127"
proof -
  let ?hi = "push_bit 1 (x AND 0x3F)" and ?lo = "drop_bit 7 (y AND 0x80)"
  have hi: "0 \<le> ?hi \<and> ?hi < 2 ^ 7"
    by (rule shifted_bounds(1)) (rule and_mask_bounds)+
  have lo: "0 \<le> ?lo \<and> ?lo < 2 ^ 7"
    by (rule shifted_bounds(2)) (rule and_mask_bounds)+
  show "0 \<le> ?hi OR ?lo" using hi lo by simp
  have "?hi OR ?lo < 2 ^ 7" using hi lo by (intro OR_upper) auto
  then show "?hi OR ?lo \<le> 127" by simp
qed

lemma cmd_field_bounds:
  fixes y :: int
  shows "0 \<le> drop_bit 5 (y AND 0x60) \<and> drop_bit 5 (y AND 0x60) \<le> 3"
  by (rule shifted_bounds(3)) (rule and_mask_bounds)+

text \<open>
  Claim C2. A packet whose length is not 3, or whose first element is not the sentinel
  \<open>0xFE\<close>, or whose frame-type code (the override if supplied, else bits 7-6 of byte 1) is
  neither \<open>0x02\<close> nor \<open>0x03\<close>, is rejected: the decoder returns \<^verbatim>\<open>None\<close>. The decoder
  is a pure function, so the rejection is its whole effect: no fault, no partial record.
\<close>

theorem parse_rejects_malformed:
  "length packet \<noteq> 3 \<or> packet ! 0 \<noteq> 0xFE \<or>
     (frame_type_code packet ct \<noteq> 0x02 \<and> frame_type_code packet ct \<noteq> 0x03)
   \<Longrightarrow> parse_tmcc_switch_or_accessory packet ct = None"
  by (auto simp: parse_tmcc_switch_or_accessory_def frame_type_code_def Let_def
           split: option.splits)

theorem parse_rejects_malformed_witness:
  "(frame_type_code [0xFE, 0x40, 0x01] None \<noteq> 0x02 \<and> frame_type_code [0xFE, 0x40, 0x01] None \<noteq> 0x03)
   \<and> parse_tmcc_switch_or_accessory [0xFE, 0x40, 0x01] None = None
   \<and> parse_tmcc_switch_or_accessory [0xFE, 0xC0] None = None
   \<and> parse_tmcc_switch_or_accessory [0xFF, 0xC0, 0x01] None = None
   \<and> parse_tmcc_switch_or_accessory [0xFE, 0xC0, 0x01] (Some 1) = None"
  using parse_rejects_malformed [of "[0xFE, 0x40, 0x01]" None]
    parse_rejects_malformed [of "[0xFE, 0xC0]" None]
    parse_rejects_malformed [of "[0xFF, 0xC0, 0x01]" None]
    parse_rejects_malformed [of "[0xFE, 0xC0, 0x01]" "Some 1"]
  by (simp add: frame_type_code_def)

text \<open>
  Claim C4. Every accepted frame (length 3, sentinel first, frame-type code 2 or 3) decodes to
  address \<open>((byte1 & 0x3F) << 1) | ((byte2 & 0x80) >> 7)\<close>, command field
  \<open>(byte2 & 0x60) >> 5\<close> and data field \<open>byte2 & 0x1F\<close>. In particular
  \<open>[0xFE, 0b11000000, 0b00000000]\<close> gives address 0, command 0, data 0 and
  \<open>[0xFE, 0b11000001, 0b10000101]\<close> gives address 3, command 0, data 5, both of the
  accessory frame type 3.
\<close>

theorem parse_derives_fields:
  "(length packet = 3 \<and> packet ! 0 = 0xFE \<and>
      (frame_type_code packet ct = 0x02 \<or> frame_type_code packet ct = 0x03)
    \<longrightarrow> parse_tmcc_switch_or_accessory packet ct =
          Some \<lparr> address = push_bit 1 (packet ! 1 AND 0x3F) OR drop_bit 7 (packet ! 2 AND 0x80),
                 cmd_field = drop_bit 5 (packet ! 2 AND 0x60),
                 data_field = packet ! 2 AND 0x1F,
                 cmd_type = frame_type_code packet ct \<rparr>)
   \<and> parse_tmcc_switch_or_accessory [0xFE, 0xC0, 0x00] None =
          Some \<lparr> address = 0, cmd_field = 0, data_field = 0, cmd_type = 3 \<rparr>
   \<and> parse_tmcc_switch_or_accessory [0xFE, 0xC1, 0x85] None =
          Some \<lparr> address = 3, cmd_field = 0, data_field = 5, cmd_type = 3 \<rparr>"
  by (auto simp: parse_tmcc_switch_or_accessory_def frame_type_code_def Let_def
           split: option.splits)

theorem parse_derives_fields_witness:
  "length [0xFE, 0xF2, 0x03 :: int] = 3 \<and> [0xFE, 0xF2, 0x03 :: int] ! 0 = 0xFE
   \<and> frame_type_code [0xFE, 0xF2, 0x03] None = 0x03
   \<and> parse_tmcc_switch_or_accessory [0xFE, 0xF2, 0x03] None =
          Some \<lparr> address = 100, cmd_field = 0, data_field = 3, cmd_type = 3 \<rparr>
   \<and> parse_tmcc_switch_or_accessory [0xFE, 0x0A, 0xE1] (Some 2) =
          Some \<lparr> address = 21, cmd_field = 3, data_field = 1, cmd_type = 2 \<rparr>"
  using parse_derives_fields [of "[0xFE, 0xF2, 0x03]" None]
    parse_derives_fields [of "[0xFE, 0x0A, 0xE1]" "Some 2"]
  by (simp add: frame_type_code_def)

text \<open>
  Claim C9. Whatever integers the packet holds (Python integers need not be bytes), every
  accepted frame has \<open>0 \<le> address \<le> 127\<close>, \<open>0 \<le> cmd_field \<le> 3\<close>,
  \<open>0 \<le> data_field \<le> 31\<close> and \<open>cmd_type \<in> {2, 3}\<close>: the masks bound the fields.
\<close>

theorem parse_field_ranges:
  "parse_tmcc_switch_or_accessory packet ct = Some r \<Longrightarrow>
     0 \<le> address r \<and> address r \<le> 127 \<and> 0 \<le> cmd_field r \<and> cmd_field r \<le> 3 \<and>
     0 \<le> data_field r \<and> data_field r \<le> 31 \<and> (cmd_type r = 2 \<or> cmd_type r = 3)"
  unfolding parse_tmcc_switch_or_accessory_def Let_def
  using address_bounds cmd_field_bounds and_mask_bounds(7,8)
  by (auto split: if_splits)

theorem parse_field_ranges_witness:
  "parse_tmcc_switch_or_accessory [0xFE, -1, 1000] None =
     Some \<lparr> address = 127, cmd_field = 3, data_field = 8, cmd_type = 3 \<rparr>
   \<and> (0::int) \<le> 127 \<and> (127::int) \<le> 127 \<and> (0::int) \<le> 3 \<and> (3::int) \<le> 3
   \<and> (0::int) \<le> 8 \<and> (8::int) \<le> 31"
proof -
  have accepted: "parse_tmcc_switch_or_accessory [0xFE, -1, 1000] None =
      Some \<lparr> address = 127, cmd_field = 3, data_field = 8, cmd_type = 3 \<rparr>"
    by (simp add: parse_tmcc_switch_or_accessory_def)
  from parse_field_ranges [OF accepted] accepted show ?thesis by simp
qed

section \<open>Properties of the client\<close>

lemma post_state_result:
  "post_state tr payload =
     (Inr (case exchange tr of Responds s r \<Rightarrow> 200 \<le> s \<and> s < 300 | _ \<Rightarrow> False),
      PostState payload #
        (case exchange tr of
           Responds s r \<Rightarrow> if 200 \<le> s \<and> s < 300 then [] else [Log WARNING ''WLED HTTP %s %s: %s'']
         | _ \<Rightarrow> [Log ERROR ''WLED request failed: %s'']) @
        (case exchange tr of ConnectionRaises e \<Rightarrow> [] | _ \<Rightarrow> [ConnClose]))"
  by (cases "exchange tr")
     (auto simp: post_state_def post_state_try_def post_state_close_def Let_def split: sum.splits)

lemma device_calls_simps:
  "device_calls [] = []"
  "device_calls (PostState p # ev) = p # device_calls ev"
  "device_calls (ConnClose # ev) = device_calls ev"
  "device_calls (Log lv m # ev) = device_calls ev"
  "device_calls (SetRunning b # ev) = device_calls ev"
  "device_calls (ThreadStart # ev) = device_calls ev"
  "device_calls (ThreadJoin # ev) = device_calls ev"
  "device_calls (ev1 @ ev2) = device_calls ev1 @ device_calls ev2"
  by (simp_all add: device_calls_def)

lemma device_calls_post_state: "device_calls (snd (post_state tr payload)) = [payload]"
  by (cases "exchange tr") (simp_all add: post_state_result device_calls_simps)

lemma post_state_shape:
  "\<exists>b after. post_state tr payload = (Inr b, PostState payload # after) \<and> device_calls after = []"
  by (simp add: post_state_result device_calls_simps split: exchange.splits)

lemma post_and_discard_shape:
  "\<exists>after. post_and_discard tr payload = (Inr (), PostState payload # after) \<and> device_calls after = []"
  using post_state_shape [of tr payload]
  by (auto simp: post_and_discard_def discard_def)

text \<open>
  Claim C6. For every payload and every outcome of the exchange, \<^verbatim>\<open>post_state\<close> returns a
  boolean and raises nothing. The boolean is true exactly when a response with a status in
  200..299 was received; otherwise a warning (non-2xx status) or an error (transport
  exception) has been logged. Whenever the connection object was created, \<^verbatim>\<open>close\<close> is
  called on it, once, as the last effect.
\<close>

theorem post_state_never_raises:
  "\<exists>b ev. post_state tr payload = (Inr b, ev)
     \<and> (b \<longleftrightarrow> (\<exists>status reason. exchange tr = Responds status reason \<and> 200 \<le> status \<and> status < 300))
     \<and> (\<not> b \<longrightarrow> Log WARNING ''WLED HTTP %s %s: %s'' \<in> set ev
                \<or> Log ERROR ''WLED request failed: %s'' \<in> set ev)
     \<and> device_calls ev = [payload]
     \<and> ((\<forall>e. exchange tr \<noteq> ConnectionRaises e)
          \<longrightarrow> last ev = ConnClose \<and> count_list ev ConnClose = 1)"
proof -
  let ?b = "case exchange tr of Responds s r \<Rightarrow> 200 \<le> s \<and> s < 300 | _ \<Rightarrow> False"
  let ?ev = "snd (post_state tr payload)"
  have "post_state tr payload = (Inr ?b, ?ev)"
    by (simp add: post_state_result)
  moreover have "?b \<longleftrightarrow>
      (\<exists>status reason. exchange tr = Responds status reason \<and> 200 \<le> status \<and> status < 300)"
    by (cases "exchange tr") simp_all
  moreover have "\<not> ?b \<longrightarrow> Log WARNING ''WLED HTTP %s %s: %s'' \<in> set ?ev
      \<or> Log ERROR ''WLED request failed: %s'' \<in> set ?ev"
    by (cases "exchange tr") (auto simp: post_state_result)
  moreover have "device_calls ?ev = [payload]"
    by (rule device_calls_post_state)
  moreover have "(\<forall>e. exchange tr \<noteq> ConnectionRaises e)
      \<longrightarrow> last ?ev = ConnClose \<and> count_list ?ev ConnClose = 1"
    by (cases "exchange tr") (simp_all add: post_state_result)
  ultimately show ?thesis by blast
qed

theorem post_state_never_raises_witness:
  "post_state \<lparr>exchange = Responds 503 ''Service Unavailable'', close_raises = True\<rparr>
       (JObj [(''on'', JBool True)])
     = (Inr False, [PostState (JObj [(''on'', JBool True)]),
                    Log WARNING ''WLED HTTP %s %s: %s'', ConnClose])
   \<and> post_state \<lparr>exchange = ReadRaises TimeoutError, close_raises = False\<rparr>
       (JObj [(''on'', JBool True)])
     = (Inr False, [PostState (JObj [(''on'', JBool True)]),
                    Log ERROR ''WLED request failed: %s'', ConnClose])
   \<and> post_state \<lparr>exchange = Responds 200 ''OK'', close_raises = False\<rparr>
       (JObj [(''on'', JBool True)])
     = (Inr True, [PostState (JObj [(''on'', JBool True)]), ConnClose])"
  using post_state_never_raises
      [of "\<lparr>exchange = Responds 503 ''Service Unavailable'', close_raises = True\<rparr>"
          "JObj [(''on'', JBool True)]"]
    post_state_never_raises
      [of "\<lparr>exchange = ReadRaises TimeoutError, close_raises = False\<rparr>"
          "JObj [(''on'', JBool True)]"]
    post_state_never_raises
      [of "\<lparr>exchange = Responds 200 ''OK'', close_raises = False\<rparr>"
          "JObj [(''on'', JBool True)]"]
  by (simp add: post_state_result)

section \<open>Properties of the controller\<close>

text \<open>
  Claim C3. On a controller whose simulator is configured and running, the action
  \<^verbatim>\<open>off\<close> clears the simulator's running flag before it posts \<open>{on: false}\<close>: in the
  effects of the call the assignment \<open>SetRunning False\<close> precedes the one device call, and
  the simulator is stopped afterwards.
\<close>

theorem off_stops_before_post:
  assumes "daylight c = Some d" and "running d"
  shows "\<exists>c' d' before after.
           apply_action dec tr c (str ''off'') =
             (Inr (), c', before @ PostState (JObj [(''on'', JBool False)]) # after)
         \<and> SetRunning False \<in> set before \<and> device_calls before = [] \<and> device_calls after = []
         \<and> daylight c' = Some d' \<and> \<not> running d'"
proof -
  let ?before = "SetRunning False # (if thread d then [ThreadJoin] else []) @
                   [Log INFO ''Daylight cycle stopped'']"
  let ?d' = "d\<lparr>running := False\<rparr>"
  let ?c' = "c\<lparr>daylight := Some ?d'\<rparr>"
  obtain after where post: "post_and_discard tr (JObj [(''on'', JBool False)]) =
      (Inr (), PostState (JObj [(''on'', JBool False)]) # after)"
    and quiet: "device_calls after = []"
    using post_and_discard_shape by blast
  have stop: "stop_if_configured c = (?c', ?before)"
    using assms(1) by (simp add: stop_if_configured_def daylight_stop_def)
  have "apply_action dec tr c (str ''off'') =
          (Inr (), ?c', ?before @ PostState (JObj [(''on'', JBool False)]) # after)"
    by (simp add: apply_action_def str_def stop post)
  moreover have "SetRunning False \<in> set ?before" by simp
  moreover have "device_calls ?before = []" by (simp add: device_calls_simps)
  moreover have "daylight ?c' = Some ?d'" "\<not> running ?d'" by simp_all
  ultimately show ?thesis using quiet by blast
qed

theorem off_stops_before_post_witness:
  "\<exists>c' d' before after.
      apply_action decimal_excerpt \<lparr>exchange = Responds 200 ''OK'', close_raises = False\<rparr>
         \<lparr>mapping = (\<lambda>k. None), client = \<lparr>host = ''192.168.0.10'', port = 80, timeout = 2\<rparr>,
          pattern_presets = [], pattern_index = 0,
          daylight = Some ((daylight_cycle_init 1800 100 0 5 3 None 1)
                             \<lparr>running := True, thread := True\<rparr>)\<rparr> (str ''off'')
        = (Inr (), c', before @ PostState (JObj [(''on'', JBool False)]) # after)
      \<and> SetRunning False \<in> set before \<and> device_calls before = [] \<and> device_calls after = []
      \<and> daylight c' = Some d' \<and> \<not> running d'"
  by (rule off_stops_before_post
        [where d = "(daylight_cycle_init 1800 100 0 5 3 None 1)\<lparr>running := True, thread := True\<rparr>"])
     simp_all

lemma cycle_index_in_range:
  assumes "xs \<noteq> []"
  shows "list_get xs ((i + 1) mod int (length xs)) = Inr (xs ! nat ((i + 1) mod int (length xs)))"
proof -
  have pos: "0 < int (length xs)" using assms by simp
  have "0 \<le> (i + 1) mod int (length xs)" "(i + 1) mod int (length xs) < int (length xs)"
    using pos by (rule pos_mod_sign, rule pos_mod_bound)
  then show ?thesis by (simp add: list_get_def)
qed

lemma apply_action_cycle: "apply_action dec tr c (str ''cycle'') = apply_cycle tr c"
  by (simp add: apply_action_def startswith_def str_def)

text \<open>
  Claim C7. With an empty preset list the action \<^verbatim>\<open>cycle\<close> logs a warning and makes no
  device call. With a list of length \<open>n > 0\<close> and cursor \<open>i\<close> it sets the cursor to
  \<open>(i + 1) mod n\<close> and makes exactly one device call, posting the preset id stored at the new
  cursor. No other action changes the cursor.
\<close>

theorem cycle_preset_advances:
  "(pattern_presets c = [] \<longrightarrow>
      apply_action dec tr c (str ''cycle'') =
        (Inr (), c, [Log WARNING ''No pattern_presets configured for cycle action'']))
   \<and> (pattern_presets c \<noteq> [] \<longrightarrow>
        (\<exists>ev. apply_action dec tr c (str ''cycle'') =
                 (Inr (), c\<lparr>pattern_index :=
                           (pattern_index c + 1) mod int (length (pattern_presets c))\<rparr>, ev)
             \<and> device_calls ev =
                 [JObj [(''ps'', JInt (pattern_presets c !
                     nat ((pattern_index c + 1) mod int (length (pattern_presets c)))))]]))
   \<and> (action \<noteq> str ''cycle'' \<longrightarrow>
        pattern_index (fst (snd (apply_action dec tr c action))) = pattern_index c)"
proof (intro conjI impI)
  assume "pattern_presets c = []"
  then show "apply_action dec tr c (str ''cycle'') =
      (Inr (), c, [Log WARNING ''No pattern_presets configured for cycle action''])"
    by (simp add: apply_action_cycle apply_cycle_def)
next
  assume ne: "pattern_presets c \<noteq> []"
  let ?i = "(pattern_index c + 1) mod int (length (pattern_presets c))"
  let ?p = "JObj [(''ps'', JInt (pattern_presets c ! nat ?i))]"
  obtain b after where post: "post_state tr ?p = (Inr b, PostState ?p # after)"
    and quiet: "device_calls after = []"
    using post_state_shape by blast
  have "apply_action dec tr c (str ''cycle'') = (Inr (), c\<lparr>pattern_index := ?i\<rparr>,
          (PostState ?p # after) @ [Log INFO ''WLED cycled to preset %s''])"
    using ne by (simp add: apply_action_cycle apply_cycle_def Let_def cycle_index_in_range post)
  moreover have "device_calls ((PostState ?p # after) @ [Log INFO ''WLED cycled to preset %s'']) = [?p]"
    using quiet by (simp add: device_calls_simps)
  ultimately show "\<exists>ev. apply_action dec tr c (str ''cycle'') =
        (Inr (), c\<lparr>pattern_index := ?i\<rparr>, ev)
      \<and> device_calls ev = [?p]"
    by blast
next
  assume "action \<noteq> str ''cycle''"
  then show "pattern_index (fst (snd (apply_action dec tr c action))) = pattern_index c"
    by (auto simp: apply_action_def stop_if_configured_def split: prod.splits option.splits)
qed

lemma harness_controller_built:
  "fst (wled_controller_init answers_ok harness_mapping ''192.168.0.10'' 80 (Some [1, 2, 3]) 2
          False 1800 100 0 5 3) = Inr harness_controller"
  by (simp add: wled_controller_init_def harness_controller_def)

theorem cycle_preset_advances_witness:
  "apply_action decimal_excerpt answers_ok (harness_controller\<lparr>pattern_presets := []\<rparr>)
       (str ''cycle'') =
      (Inr (), harness_controller\<lparr>pattern_presets := []\<rparr>,
       [Log WARNING ''No pattern_presets configured for cycle action''])
   \<and> (\<exists>ev. apply_action decimal_excerpt answers_ok (harness_controller\<lparr>pattern_index := 2\<rparr>)
              (str ''cycle'') =
             (Inr (), harness_controller\<lparr>pattern_index := 0\<rparr>, ev)
          \<and> device_calls ev = [JObj [(''ps'', JInt 1)]])
   \<and> pattern_index (fst (snd (apply_action decimal_excerpt answers_ok
         (harness_controller\<lparr>pattern_index := 2\<rparr>) (str ''off'')))) = 2"
  using cycle_preset_advances
      [where c = "harness_controller\<lparr>pattern_presets := []\<rparr>" and dec = decimal_excerpt
         and tr = answers_ok and action = "str ''on''"]
    cycle_preset_advances
      [where c = "harness_controller\<lparr>pattern_index := 2\<rparr>" and dec = decimal_excerpt
         and tr = answers_ok and action = "str ''off''"]
  by (simp add: harness_controller_def str_def)

lemma py_int_examples:
  "py_int dec 10 (str ''999'') = Inr 999"
  "py_int dec 10 (str ''-7'') = Inr (- 7)"
  "py_int dec 10 (str ''bright'') = Inl ValueError"
  "py_int dec 10 (str '' +1_0 '') = Inr 10"
  "py_int dec 16 (str ''zz'') = Inl ValueError"
  "py_int dec 16 (str ''0x_fF'') = Inr 255"
  "py_int dec 10 [0xA0, 0x35] = Inr 5"
  "py_int dec 10 [0x37, 0x85] = Inr 7"
  "py_int dec 10 [0x1C, 0x35] = Inl ValueError"
  "py_int decimal_excerpt 10 [0x0661, 0xFF12, 0x33] = Inr 123"
  "py_int decimal_excerpt 10 [0x35, 0xB2] = Inl ValueError"
  by (simp_all add: py_int_def transform_decimal_and_space_to_ascii_def unicode_isspace_def
        decimal_excerpt_def is_space_def startswith_def str_def parse_digits_def digit_value_def)

text \<open>
  Claim C8. When the argument of a \<^verbatim>\<open>brightness:\<close> action parses as the integer \<open>v\<close>, the
  action makes exactly one device call, posting \<open>bri = max(0, min(255, v))\<close>; in particular
  \<^verbatim>\<open>brightness:999\<close> posts 255. When the argument does not parse, the action makes no
  device call, logs a warning and returns normally. The argument is any string of code
  points, and the table of Unicode decimal digits is arbitrary.
\<close>

theorem brightness_clamped:
  "(py_int dec 10 arg = Inr v \<longrightarrow>
      (\<exists>ev. apply_action dec tr c (str ''brightness:'' @ arg) = (Inr (), c, ev)
           \<and> device_calls ev = [JObj [(''bri'', JInt (max 0 (min 255 v)))]]))
   \<and> (py_int dec 10 arg = Inl ValueError \<longrightarrow>
        apply_action dec tr c (str ''brightness:'' @ arg) =
          (Inr (), c, [Log WARNING ''Invalid brightness action: %s'']))
   \<and> (py_int dec 10 arg = Inl e \<longrightarrow> e = ValueError)
   \<and> (\<exists>ev. apply_action dec tr c (str ''brightness:999'') = (Inr (), c, ev)
          \<and> device_calls ev = [JObj [(''bri'', JInt 255)]])"
proof -
  have numeric: "\<exists>ev. apply_action dec tr c (str ''brightness:'' @ a) = (Inr (), c, ev)
           \<and> device_calls ev = [JObj [(''bri'', JInt (max 0 (min 255 w)))]]"
    if "py_int dec 10 a = Inr w" for a w
  proof -
    let ?p = "JObj [(''bri'', JInt (max 0 (min 255 w)))]"
    obtain after where post: "post_and_discard tr ?p = (Inr (), PostState ?p # after)"
      and quiet: "device_calls after = []"
      using post_and_discard_shape by blast
    have "apply_action dec tr c (str ''brightness:'' @ a) = (Inr (), c, PostState ?p # after)"
      using that
      by (simp add: apply_action_def startswith_def str_def apply_brightness_def
            brightness_try_def split_colon_1_def Let_def post except_ValueError_def)
    then show ?thesis using quiet by (simp add: device_calls_simps)
  qed
  have "\<exists>ev. apply_action dec tr c (str ''brightness:'' @ str ''999'') = (Inr (), c, ev)
           \<and> device_calls ev = [JObj [(''bri'', JInt (max 0 (min 255 999)))]]"
    by (rule numeric) (rule py_int_examples)
  then have ex: "\<exists>ev. apply_action dec tr c (str ''brightness:999'') = (Inr (), c, ev)
          \<and> device_calls ev = [JObj [(''bri'', JInt 255)]]"
    by (simp add: str_def)
  have bad: "apply_action dec tr c (str ''brightness:'' @ arg) =
          (Inr (), c, [Log WARNING ''Invalid brightness action: %s''])"
    if "py_int dec 10 arg = Inl ValueError"
    using that
    by (simp add: apply_action_def startswith_def str_def apply_brightness_def
          brightness_try_def split_colon_1_def except_ValueError_def)
  have only: "py_int dec 10 arg = Inl e \<longrightarrow> e = ValueError"
    by (auto simp: py_int_def Let_def split: prod.splits option.splits)
  show ?thesis using numeric [of arg v] bad ex only by blast
qed

theorem brightness_clamped_witness:
  "py_int decimal_excerpt 10 (str ''-7'') = Inr (- 7)
   \<and> (\<exists>ev. apply_action decimal_excerpt answers_ok harness_controller (str ''brightness:-7'') =
             (Inr (), harness_controller, ev)
          \<and> device_calls ev = [JObj [(''bri'', JInt 0)]])
   \<and> py_int decimal_excerpt 10 [0xA0, 0x35] = Inr 5
   \<and> (\<exists>ev. apply_action decimal_excerpt answers_ok harness_controller
              (str ''brightness:'' @ [0xA0, 0x35]) = (Inr (), harness_controller, ev)
          \<and> device_calls ev = [JObj [(''bri'', JInt 5)]])
   \<and> py_int decimal_excerpt 10 (str ''bright'') = Inl ValueError
   \<and> apply_action decimal_excerpt answers_ok harness_controller (str ''brightness:bright'') =
          (Inr (), harness_controller, [Log WARNING ''Invalid brightness action: %s''])"
proof -
  note ex = py_int_examples(2,7,3) [of decimal_excerpt]
  show ?thesis
    using brightness_clamped
        [where dec = decimal_excerpt and arg = "str ''-7''" and v = "- 7" and tr = answers_ok
           and c = harness_controller and e = ValueError]
      brightness_clamped
        [where dec = decimal_excerpt and arg = "[0xA0, 0x35]" and v = 5 and tr = answers_ok
           and c = harness_controller and e = ValueError]
      brightness_clamped
        [where dec = decimal_excerpt and arg = "str ''bright''" and v = 0 and tr = answers_ok
           and c = harness_controller and e = ValueError]
      ex
    by (simp add: str_def)
qed

text \<open>
  Claim C10. A controller constructed with the daylight flag set comes back with its
  simulator running and its thread started, and the constructor has made exactly one device
  call, the baseline post of the full strip; no action was dispatched for it.
\<close>

theorem init_starts_daylight:
  "\<exists>c d ev. wled_controller_init tr m h p presets t True duration leds moon_s moon_l lightning
               = (Inr c, ev)
      \<and> daylight c = Some d \<and> running d \<and> thread d \<and> led_count d = leds
      \<and> device_calls ev =
          [JObj [(''on'', JBool True), (''mainseg'', JInt 0),
                 (''seg'', JList [JObj [(''id'', JInt 0), (''start'', JInt 0),
                                        (''stop'', JInt leds), (''on'', JBool True)]])]]
      \<and> SetRunning True \<in> set ev \<and> ThreadStart \<in> set ev"
proof -
  let ?d = "daylight_cycle_init duration leds moon_s moon_l lightning None 1"
  obtain b after where
    post: "post_state tr (baseline_state ?d) = (Inr b, PostState (baseline_state ?d) # after)"
    and quiet: "device_calls after = []"
    using post_state_shape by blast
  have idle: "\<not> running ?d" by (simp add: daylight_cycle_init_def)
  have "daylight_start tr ?d = (Inr (), ?d\<lparr>running := True, thread := True\<rparr>,
          (PostState (baseline_state ?d) # after) @
            [SetRunning True, ThreadStart, Log INFO ''Daylight cycle started (%.0f sec per 24h)''])"
    using idle by (simp add: daylight_start_def post)
  then show ?thesis
    using quiet
    by (simp add: wled_controller_init_def Let_def device_calls_simps baseline_state_def
          daylight_cycle_init_def)
qed

text \<open>
  Claim C1, evaluated on the code. The action \<^verbatim>\<open>color:zzzzzz\<close> has a six-character
  argument, so the length check passes and \<^verbatim>\<open>int("zz", 16)\<close> raises \<^verbatim>\<open>ValueError\<close>
  outside any handler: no device call and no log record are made, and the exception reaches
  the caller, also through \<^verbatim>\<open>handle_packet\<close>.
\<close>

theorem color_non_hex_raises:
  "apply_action dec tr c (str ''color:zzzzzz'') = (Inl ValueError, c, [])
   \<and> handle_packet dec tr
         (harness_controller\<lparr>mapping := [(50, 0x01) \<mapsto> str ''color:zzzzzz'']\<rparr>)
         [0xFE, 0xD9, 0x01] None =
       (Inl ValueError, harness_controller\<lparr>mapping := [(50, 0x01) \<mapsto> str ''color:zzzzzz'']\<rparr>,
        [Log INFO ''WLED action '%s' for addr %s data %s''])"
proof -
  have raises: "apply_action dec tr k (str ''color:zzzzzz'') = (Inl ValueError, k, [])" for k
    by (simp add: apply_action_def startswith_def str_def apply_color_def split_colon_1_def
          lstrip_hash_def py_int_def transform_decimal_and_space_to_ascii_def is_space_def
          parse_digits_def digit_value_def)
  have "parse_tmcc_switch_or_accessory [0xFE, 0xD9, 0x01] None =
      Some \<lparr> address = 50, cmd_field = 0, data_field = 1, cmd_type = 3 \<rparr>"
    by (simp add: parse_tmcc_switch_or_accessory_def)
  then have "handle_packet dec tr
         (harness_controller\<lparr>mapping := [(50, 0x01) \<mapsto> str ''color:zzzzzz'']\<rparr>)
         [0xFE, 0xD9, 0x01] None =
       (Inl ValueError, harness_controller\<lparr>mapping := [(50, 0x01) \<mapsto> str ''color:zzzzzz'']\<rparr>,
        [Log INFO ''WLED action '%s' for addr %s data %s''])"
    by (simp add: handle_packet_def raises) (simp add: str_def)
  with raises show ?thesis by simp
qed

section \<open>Properties of the simulator\<close>











end
